theory Spec2Isabelle
  imports Main
begin

section \<open>Python values and truthiness\<close>

text \<open>
  The values the tenant context, primary keys and instance attributes range over.
  \<open>PyObj\<close> is an opaque object (a model instance used as the tenant, say); it is
  truthy, as an object without \<open>__bool__\<close> and \<open>__len__\<close> is.
\<close>

datatype pyval =
  PyNone | PyBool bool | PyInt int | PyStr string | PyList "pyval list" | PyObj string

text \<open>
  The test \<open>if x:\<close> / \<open>if not x:\<close>. The source decides with it whether a
  current tenant is set: \<open>None\<close>, \<open>0\<close>, the empty string and the empty list all
  take the branch the source calls "without a current tenant set".
\<close>

fun truthy :: "pyval \<Rightarrow> bool" where
  "truthy PyNone = False"
| "truthy (PyBool b) = b"
| "truthy (PyInt n) = (n \<noteq> 0)"
| "truthy (PyStr s) = (s \<noteq> [])"
| "truthy (PyList xs) = (xs \<noteq> [])"
| "truthy (PyObj a) = True"

text \<open>\<open>isinstance(x, list)\<close>\<close>

fun isinstance_list :: "pyval \<Rightarrow> bool" where
  "isinstance_list (PyList xs) = True"
| "isinstance_list PyNone = False"
| "isinstance_list (PyBool b) = False"
| "isinstance_list (PyInt n) = False"
| "isinstance_list (PyStr s) = False"
| "isinstance_list (PyObj a) = False"

section \<open>Entity types, instances and the query layer\<close>

text \<open>
  A tenant-scoped entity type (a subclass of \<open>TenantModelMixin\<close>): its
  \<open>__name__\<close> and its class attribute \<open>tenant_id\<close>, the name of the tenant
  attribute (\<open>tenant_id = ""\<close> in the mixin, overridden by each model).
\<close>

record model_class =
  cls_name :: string
  tenant_id :: string

text \<open>
  An instance: its class, its primary key (\<open>PyNone\<close> before the first insert) and
  the values of its data attributes by name. Class attributes such as \<open>tenant_id\<close>
  are read from the class.
\<close>

record model_instance =
  inst_class :: model_class
  pk :: pyval
  attrs :: "string \<Rightarrow> pyval option"

datatype model_or_instance = ModelClass model_class | Instance model_instance

text \<open>A database field of an entity type, and a column reference \<open>alias.column\<close>.\<close>

record db_field =
  field_owner :: string
  field_column :: string

datatype col = Col string db_field

text \<open>\<open>field.get_col(alias)\<close>\<close>

definition get_col :: "db_field \<Rightarrow> string \<Rightarrow> col" where
  "get_col field alias = Col alias field"

text \<open>
  A lookup \<open>field.get_lookup(name)(lhs, rhs)\<close> and the where-tree it is added to.
  \<open>where_add\<close> is the query layer's \<open>Node.add(data, conn_type)\<close>: a child is
  appended when the node already has that connector; otherwise the old node becomes
  the first child of a node with the new connector.
\<close>

datatype lookup = Lookup string col pyval

datatype where_node = WhereNode string "where_child list"
  and where_child = Leaf lookup | Sub where_node

fun where_add :: "where_node \<Rightarrow> lookup \<Rightarrow> string \<Rightarrow> where_node" where
  "where_add (WhereNode connector children) data conn_type =
     (if connector = conn_type then WhereNode connector (children @ [Leaf data])
      else WhereNode conn_type [Sub (WhereNode connector children), Leaf data])"

text \<open>
  A queryset: the entity type and the keyword lookups accumulated by
  \<open>filter(**kwargs)\<close>, all of which a row has to satisfy.
\<close>

record queryset =
  qs_model :: model_class
  qs_where :: "(string \<times> pyval) list"

definition qs_filter :: "(string \<times> pyval) list \<Rightarrow> queryset \<Rightarrow> queryset" where
  "qs_filter kwargs qs = qs\<lparr>qs_where := qs_where qs @ kwargs\<rparr>"

type_synonym row = "string \<Rightarrow> pyval option"

fun lookup_holds :: "row \<Rightarrow> string \<times> pyval \<Rightarrow> bool" where
  "lookup_holds r (c, v) = (r c = Some v)"

definition qs_rows :: "row list \<Rightarrow> queryset \<Rightarrow> row list" where
  "qs_rows table qs = filter (\<lambda>r. list_all (lookup_holds r) (qs_where qs)) table"

section \<open>The helper module\<close>

text \<open>
  \<open>utils.py\<close> is imported by both source files and is not among them. What its
  functions return in the current process state is taken as a parameter: a field of
  this record is the result of the helper of the same name.
\<close>

record utils =
  get_current_tenant :: pyval
  get_current_tenant_value :: pyval
  get_tenant_column :: "model_class \<Rightarrow> string"
  get_tenant_field :: "model_class \<Rightarrow> db_field"
  get_tenant_filters :: "model_or_instance \<Rightarrow> (string \<times> pyval) list"

text \<open>
  Modelled from the spec: the helpers of \<open>utils.py\<close> under a tenant context holding
  \<open>t\<close> (\<open>PyNone\<close> when nothing is set). The context is one cell read by
  \<open>get_current_tenant\<close> and as the Predicate Builder's value; the Metadata Resolver
  returns the tenant column name declared by the entity type; the Predicate Builder
  returns the mapping from that column to the current value when a tenant is set and the
  empty mapping when none is.
\<close>

definition utils_under :: "pyval \<Rightarrow> utils" where
  "utils_under t =
     \<lparr>get_current_tenant = t,
      get_current_tenant_value = t,
      get_tenant_column = tenant_id,
      get_tenant_field = (\<lambda>m. \<lparr>field_owner = cls_name m, field_column = tenant_id m\<rparr>),
      get_tenant_filters = (\<lambda>x. if t = PyNone then []
         else [(tenant_id (case x of ModelClass m \<Rightarrow> m | Instance i \<Rightarrow> inst_class i), t)])\<rparr>"

section \<open>fields.py: TenantForeignKey\<close>

text \<open>
  The relation field: \<open>self.name\<close>, \<open>self.model\<close> (the declaring type A),
  \<open>self.related_model\<close> (the target type B), and whether the referenced column of B
  is declared unique.
\<close>

record tenant_foreign_key =
  fk_name :: string
  fk_model :: model_class
  related_model :: model_class
  target_unique :: bool


text \<open>
  \<open>get_joining_columns\<close>. \<open>super_get_joining_columns\<close> is the parent class's
  method, applied to \<open>reverse_join\<close>; tuples of pairs are lists of pairs.
\<close>

definition get_joining_columns ::
  "utils \<Rightarrow> (bool \<Rightarrow> (string \<times> string) list) \<Rightarrow> tenant_foreign_key \<Rightarrow> bool
     \<Rightarrow> (string \<times> string) list" where
  "get_joining_columns U super_get_joining_columns self reverse_join =
     (let default_columns = super_get_joining_columns reverse_join;
          lhs_tenant_id = get_tenant_column U (fk_model self);
          rhs_tenant_id = get_tenant_column U (related_model self)
      in default_columns @ [(lhs_tenant_id, rhs_tenant_id)])"


text \<open>
  \<open>get_extra_restriction\<close>. \<open>where_class\<close> is the node \<open>where_class()\<close>
  constructs; the result is \<open>None\<close> or the condition.
\<close>

definition get_extra_restriction ::
  "utils \<Rightarrow> tenant_foreign_key \<Rightarrow> where_node \<Rightarrow> string \<Rightarrow> string \<Rightarrow> where_node option" where
  "get_extra_restriction U self where_class alias related_alias =
     (let current_tenant_value = get_current_tenant_value U
      in if \<not> truthy current_tenant_value then None
         else
           (let lhs_tenant_field = get_tenant_field U (fk_model self);
                lookup_lhs = get_col lhs_tenant_field related_alias;
                lookup = Lookup ''exact'' lookup_lhs current_tenant_value;
                condition = where_class
            in Some (where_add condition lookup ''AND'')))"

text \<open>\<open>_check_unique_target\<close>: the list of check errors.\<close>

definition check_unique_target :: "tenant_foreign_key \<Rightarrow> string list" where
  "check_unique_target self = []"

section \<open>fields.py: TenantIDFieldMixin and TenantOneToOneField\<close>

text \<open>
  What a field constructor leaves on the field: the \<open>_unique\<close> and
  \<open>primary_key\<close> flags the base field class stores, and the \<open>tenant_id\<close>
  attribute of \<open>TenantIDFieldMixin\<close>. Keyword arguments are a map from names to
  values; \<open>super_init\<close> is the next \<open>__init__\<close> in the method resolution order.
\<close>

record field_state =
  f_unique :: pyval
  f_primary_key :: pyval
  f_tenant_id :: pyval

type_synonym kwargs = "string \<Rightarrow> pyval option"

text \<open>\<open>kwargs.pop(key, default)\<close>: the value and the remaining keyword arguments.\<close>

definition kwargs_pop :: "kwargs \<Rightarrow> string \<Rightarrow> pyval \<Rightarrow> pyval \<times> kwargs" where
  "kwargs_pop kw key dflt =
     ((case kw key of None \<Rightarrow> dflt | Some v \<Rightarrow> v), kw(key := None))"

definition TenantIDFieldMixin_init ::
  "('a \<Rightarrow> kwargs \<Rightarrow> field_state) \<Rightarrow> 'a \<Rightarrow> kwargs \<Rightarrow> field_state" where
  "TenantIDFieldMixin_init super_init args kw =
     (let (t, kw') = kwargs_pop kw ''tenant_id'' PyNone
      in (super_init args kw')\<lparr>f_tenant_id := t\<rparr>)"

definition TenantOneToOneField_init ::
  "('a \<Rightarrow> kwargs \<Rightarrow> field_state) \<Rightarrow> 'a \<Rightarrow> kwargs \<Rightarrow> field_state" where
  "TenantOneToOneField_init super_init args kw =
     super_init args (kw(''unique'' \<mapsto> PyBool False))"

text \<open>
  The classes of the object-relational mapper that \<open>TenantOneToOneField\<close> inherits
  from, in the order of its method resolution: \<open>models.OneToOneField\<close>, then
  \<open>TenantIDFieldMixin\<close>, then \<open>TenantForeignKey\<close> (which has no
  \<open>__init__\<close>) and \<open>models.ForeignKey\<close> down to \<open>Field\<close>. They are the
  mapper's code, not this repository's: \<open>OneToOneField.__init__\<close> sets
  \<open>kwargs['unique'] = True\<close> and delegates; \<open>Field.__init__\<close> stores
  \<open>unique\<close> and \<open>primary_key\<close>, both \<open>False\<close> by default.
\<close>

definition orm_Field_init :: "'a \<Rightarrow> kwargs \<Rightarrow> field_state" where
  "orm_Field_init args kw =
     \<lparr>f_unique = (case kw ''unique'' of None \<Rightarrow> PyBool False | Some v \<Rightarrow> v),
      f_primary_key = (case kw ''primary_key'' of None \<Rightarrow> PyBool False | Some v \<Rightarrow> v),
      f_tenant_id = PyNone\<rparr>"

definition orm_OneToOneField_init ::
  "('a \<Rightarrow> kwargs \<Rightarrow> field_state) \<Rightarrow> 'a \<Rightarrow> kwargs \<Rightarrow> field_state" where
  "orm_OneToOneField_init super_init args kw = super_init args (kw(''unique'' \<mapsto> PyBool True))"

text \<open>The mapper's property \<open>field.unique\<close>: \<open>self._unique or self.primary_key\<close>.\<close>

definition field_unique :: "field_state \<Rightarrow> pyval" where
  "field_unique f = (if truthy (f_unique f) then f_unique f else f_primary_key f)"

text \<open>\<open>TenantOneToOneField(*args, **kwargs)\<close> through the whole chain.\<close>

definition new_TenantOneToOneField :: "'a \<Rightarrow> kwargs \<Rightarrow> field_state" where
  "new_TenantOneToOneField args kw =
     TenantOneToOneField_init
       (orm_OneToOneField_init (TenantIDFieldMixin_init orm_Field_init)) args kw"

section \<open>mixins.py: TenantManagerMixin\<close>

text \<open>
  A manager: \<open>self.model\<close> and \<open>self._queryset_class\<close>, the constructor of the
  base queryset.
\<close>

record manager =
  mgr_model :: model_class
  queryset_class :: "model_class \<Rightarrow> queryset"

text \<open>
  What a method hands to \<open>logger.warning\<close>: the message template and its
  arguments. A method of \<open>mixins.py\<close> returns its result together with the records
  it logged.
\<close>

datatype log_arg = ArgStr string | ArgObj model_instance

datatype log_record = Warning string "log_arg list"

definition get_queryset :: "utils \<Rightarrow> manager \<Rightarrow> queryset \<times> log_record list" where
  "get_queryset U self =
     (let queryset = queryset_class self (mgr_model self);
          current_tenant = get_current_tenant U
      in if truthy current_tenant
         then (let kwargs = get_tenant_filters U (ModelClass (mgr_model self))
               in (qs_filter kwargs queryset, []))
         else (queryset, []))"

section \<open>mixins.py: TenantModelMixin\<close>

text \<open>
  The two class attributes \<open>__init__\<close> patches: \<open>DeleteQuery.get_compiler\<close> and
  \<open>Collector.related_objects\<close>. A function value is the mapper's own or a wrapper
  around another one.
\<close>

datatype get_compiler_fn = BaseGetCompiler | WrappedGetCompiler get_compiler_fn

datatype related_objects_fn = BaseRelatedObjects | TenantRelatedObjects

record process =
  DeleteQuery_get_compiler :: get_compiler_fn
  Collector_related_objects :: related_objects_fn

text \<open>
  Modelled from the spec: \<open>wrap_get_compiler\<close> of \<open>query.py\<close>, which is not among
  the source files. The function it returns carries the marker attribute \<open>_sign\<close>,
  which the mapper's own function does not, and, when called, appends the tenant
  predicate to the DELETE's WHERE clause if a tenant is current, then calls the function
  it wraps.
\<close>

definition wrap_get_compiler :: "get_compiler_fn \<Rightarrow> get_compiler_fn" where
  "wrap_get_compiler base_get_compiler = WrappedGetCompiler base_get_compiler"

text \<open>
  Modelled from the spec: \<open>hasattr(f, "_sign")\<close>, the marker attribute that only a
  function returned by \<open>wrap_get_compiler\<close> carries.
\<close>

fun hasattr_sign :: "get_compiler_fn \<Rightarrow> bool" where
  "hasattr_sign BaseGetCompiler = False"
| "hasattr_sign (WrappedGetCompiler g) = True"

text \<open>
  Modelled from the spec: calling a \<open>get_compiler\<close> function on a DELETE query.
  The result is the query the compiler is built for; each wrapper appends the tenant
  predicate when a tenant is current and calls the function it wraps.
\<close>

fun call_get_compiler :: "utils \<Rightarrow> get_compiler_fn \<Rightarrow> queryset \<Rightarrow> queryset" where
  "call_get_compiler U BaseGetCompiler q = q"
| "call_get_compiler U (WrappedGetCompiler g) q =
     call_get_compiler U g
       (if get_current_tenant U = PyNone then q
        else qs_filter (get_tenant_filters U (ModelClass (qs_model q))) q)"

text \<open>
  \<open>__init__\<close>: the patched process state, and the instance the parent constructor
  builds.
\<close>

definition TenantModelMixin_init ::
  "process \<Rightarrow> ('a \<Rightarrow> model_instance) \<Rightarrow> 'a \<Rightarrow> model_instance \<times> process" where
  "TenantModelMixin_init p super_init args =
     (let p' = (if \<not> hasattr_sign (DeleteQuery_get_compiler p)
                then p\<lparr>DeleteQuery_get_compiler := wrap_get_compiler (DeleteQuery_get_compiler p),
                       Collector_related_objects := TenantRelatedObjects\<rparr>
                else p)
      in (super_init args, p'))"

text \<open>
  \<open>_do_update\<close>. \<open>super_do_update\<close> is the parent's method; the warning is logged
  with the template and the two arguments \<open>self._meta.model.__name__\<close> and
  \<open>self\<close>.
\<close>

definition update_without_tenant_msg :: string where
  \<open>update_without_tenant_msg =
     ''Attempting to update %s instance "%s" without a current tenant '' @
     ''set. This may cause issues in a partitioned environment. '' @
     ''Recommend calling set_current_tenant() before performing this '' @
     ''operation.''\<close>

definition do_update ::
  "utils \<Rightarrow> (queryset \<Rightarrow> 'u \<Rightarrow> pyval \<Rightarrow> 'v \<Rightarrow> 'f \<Rightarrow> bool \<Rightarrow> 'r) \<Rightarrow> model_instance
     \<Rightarrow> queryset \<Rightarrow> 'u \<Rightarrow> pyval \<Rightarrow> 'v \<Rightarrow> 'f \<Rightarrow> bool \<Rightarrow> 'r \<times> log_record list" where
  "do_update U super_do_update self base_qs using_db pk_val vals update_fields forced_update =
     (let current_tenant = get_current_tenant U
      in if truthy current_tenant
         then (let kwargs = get_tenant_filters U (ModelClass (inst_class self));
                   base_qs' = qs_filter kwargs base_qs
               in (super_do_update base_qs' using_db pk_val vals update_fields forced_update, []))
         else (super_do_update base_qs using_db pk_val vals update_fields forced_update,
               [Warning update_without_tenant_msg
                  [ArgStr (cls_name (inst_class self)), ArgObj self]]))"

text \<open>The properties \<open>tenant_field\<close> and \<open>tenant_value\<close>, and \<open>setattr\<close>.\<close>

definition tenant_field :: "model_instance \<Rightarrow> string" where
  "tenant_field self = tenant_id (inst_class self)"

definition tenant_value :: "model_instance \<Rightarrow> pyval" where
  "tenant_value self = (case attrs self (tenant_field self) of None \<Rightarrow> PyNone | Some v \<Rightarrow> v)"

definition setattr :: "model_instance \<Rightarrow> string \<Rightarrow> pyval \<Rightarrow> model_instance" where
  "setattr self attr v = self\<lparr>attrs := (attrs self)(attr \<mapsto> v)\<rparr>"

text \<open>\<open>save\<close>. \<open>super_save\<close> is the parent's \<open>save\<close>, which issues the insert.\<close>

definition save :: "utils \<Rightarrow> (model_instance \<Rightarrow> 'r) \<Rightarrow> model_instance \<Rightarrow> 'r" where
  "save U super_save self =
     (let tenant_value = get_current_tenant_value U
      in if \<not> truthy (pk self) \<and> truthy tenant_value \<and> \<not> isinstance_list tenant_value
         then super_save (setattr self (tenant_field self) tenant_value)
         else super_save self)"

text \<open>
  The parent's \<open>_do_update\<close>, as far as the rows it writes: those of
  \<open>base_qs.filter(pk=pk_val)\<close>.
\<close>

definition orm_do_update :: "row list \<Rightarrow> queryset \<Rightarrow> 'u \<Rightarrow> pyval \<Rightarrow> 'v \<Rightarrow> 'f \<Rightarrow> bool \<Rightarrow> row list" where
  "orm_do_update table base_qs using_db pk_val vals update_fields forced_update =
     qs_rows table (qs_filter [(''pk'', pk_val)] base_qs)"

section \<open>Example data\<close>

definition order_model :: model_class where
  "order_model = \<lparr>cls_name = ''Order'', tenant_id = ''store_id''\<rparr>"

definition customer_model :: model_class where
  "customer_model = \<lparr>cls_name = ''Customer'', tenant_id = ''account_id''\<rparr>"

definition order_customer :: tenant_foreign_key where
  "order_customer =
     \<lparr>fk_name = ''customer'', fk_model = order_model, related_model = customer_model,
      target_unique = False\<rparr>"

definition empty_and_node :: where_node where
  "empty_and_node = WhereNode ''AND'' []"

definition order_manager :: manager where
  "order_manager =
     \<lparr>mgr_model = order_model,
      queryset_class = (\<lambda>m. \<lparr>qs_model = m, qs_where = []\<rparr>)\<rparr>"

definition order_5 :: model_instance where
  "order_5 =
     \<lparr>inst_class = order_model, pk = PyInt 5,
      attrs = [''id'' \<mapsto> PyInt 5, ''store_id'' \<mapsto> PyInt 1]\<rparr>"

definition new_order :: model_instance where
  "new_order = \<lparr>inst_class = order_model, pk = PyNone, attrs = Map.empty\<rparr>"

definition order_table :: "row list" where
  "order_table = [[''pk'' \<mapsto> PyInt 5, ''store_id'' \<mapsto> PyInt 1]]"

definition all_orders :: queryset where
  "all_orders = \<lparr>qs_model = order_model, qs_where = []\<rparr>"







text \<open>A process in which no tenant-scoped instance has been constructed yet.\<close>

definition fresh_process :: process where
  "fresh_process =
     \<lparr>DeleteQuery_get_compiler = BaseGetCompiler, Collector_related_objects = BaseRelatedObjects\<rparr>"

section \<open>Facts about the query layer\<close>

lemma qs_rows_qs_filter:
  "qs_rows table (qs_filter kw qs) = filter (\<lambda>r. list_all (lookup_holds r) kw) (qs_rows table qs)"
  by (induction table) (auto simp: qs_rows_def qs_filter_def)

lemma qs_rows_subset: "set (qs_rows table qs) \<subseteq> set table"
  by (simp add: qs_rows_def)

section \<open>Join augmentation\<close>

text \<open>
  C1. For a TenantForeignKey from A to B, \<open>get_joining_columns\<close> returns the parent
  class's joining columns followed by exactly one more pair, (A's tenant column, B's
  tenant column): every default pair is still in the result, the tenant pair is in it,
  and the result is one pair longer than the default.
\<close>

theorem get_joining_columns_adds_tenant_pair:
  "get_joining_columns U dflt self rj =
     dflt rj @ [(get_tenant_column U (fk_model self), get_tenant_column U (related_model self))]
   \<and> set (dflt rj) \<subseteq> set (get_joining_columns U dflt self rj)
   \<and> (get_tenant_column U (fk_model self), get_tenant_column U (related_model self))
       \<in> set (get_joining_columns U dflt self rj)
   \<and> length (get_joining_columns U dflt self rj) = Suc (length (dflt rj))"
  by (auto simp: get_joining_columns_def)

text \<open>
  \<open>Order.customer\<close> with the parent's columns of a forward and of a reverse join: the
  tenant pair is appended in the order (A, B) in both.
\<close>

lemma get_joining_columns_example:
  "get_joining_columns (utils_under t)
     (\<lambda>reverse_join. if reverse_join then [(''id'', ''customer_id'')]
        else [(''customer_id'', ''id'')]) order_customer False =
     [(''customer_id'', ''id''), (''store_id'', ''account_id'')]
   \<and> get_joining_columns (utils_under t)
     (\<lambda>reverse_join. if reverse_join then [(''id'', ''customer_id'')]
        else [(''customer_id'', ''id'')]) order_customer True =
     [(''id'', ''customer_id''), (''store_id'', ''account_id'')]"
  by (simp add: get_joining_columns_def utils_under_def order_customer_def order_model_def
      customer_model_def)

section \<open>Updates\<close>

text \<open>
  C2. When a current tenant is set (the source's test: \<open>get_current_tenant()\<close> is
  truthy), \<open>_do_update\<close> hands the parent's \<open>_do_update\<close> the base queryset
  intersected with the tenant filter built at that moment for the instance's class, and
  logs nothing. The scoping depends on the instance only through its class: an instance
  loaded with another tenant value gets the same queryset. With the helpers under a
  context holding the scalar \<open>T2\<close>, every row the update writes has \<open>T2\<close> in
  its tenant column, and no row is written when the rows with that primary key store
  another tenant value.
\<close>

theorem do_update_scoped_by_current_tenant:
  "(truthy (get_current_tenant U) \<longrightarrow>
      do_update U super_do_update self base_qs using_db pk_val vals update_fields forced_update =
        (super_do_update (qs_filter (get_tenant_filters U (ModelClass (inst_class self))) base_qs)
           using_db pk_val vals update_fields forced_update, [])
      \<and> (inst_class loaded = inst_class self \<longrightarrow>
           fst (do_update U super_do_update loaded base_qs using_db pk_val vals update_fields forced_update) =
           fst (do_update U super_do_update self base_qs using_db pk_val vals update_fields forced_update)))
   \<and> (truthy T2 \<and> \<not> isinstance_list T2 \<longrightarrow>
      (\<forall>r \<in> set (fst (do_update (utils_under T2) (orm_do_update table) self base_qs
                         using_db pk_val vals update_fields forced_update)).
          r (tenant_id (inst_class self)) = Some T2)
      \<and> ((\<forall>r \<in> set table. r ''pk'' = Some pk_val \<longrightarrow> r (tenant_id (inst_class self)) \<noteq> Some T2) \<longrightarrow>
          fst (do_update (utils_under T2) (orm_do_update table) self base_qs
                 using_db pk_val vals update_fields forced_update) = []))"
proof -
  let ?cls = "inst_class self"
  let ?hit = "fst (do_update (utils_under T2) (orm_do_update table) self base_qs
                 using_db pk_val vals update_fields forced_update)"
  have code: "truthy (get_current_tenant U) \<Longrightarrow>
      do_update U super_do_update x base_qs using_db pk_val vals update_fields forced_update =
        (super_do_update (qs_filter (get_tenant_filters U (ModelClass (inst_class x))) base_qs)
           using_db pk_val vals update_fields forced_update, [])" for x
    by (simp add: do_update_def)
  have hit: "?hit = filter (\<lambda>r. r ''pk'' = Some pk_val)
                     (filter (\<lambda>r. r (tenant_id ?cls) = Some T2) (qs_rows table base_qs))"
    if "truthy T2"
  proof -
    from that have "T2 \<noteq> PyNone" by (cases T2) auto
    with that show ?thesis
      by (simp add: do_update_def utils_under_def orm_do_update_def qs_rows_qs_filter)
  qed
  have scoped: "\<forall>r \<in> set ?hit. r (tenant_id ?cls) = Some T2" if "truthy T2"
    using hit [OF that] by simp
  have none: "?hit = []"
    if "truthy T2"
      and "\<forall>r \<in> set table. r ''pk'' = Some pk_val \<longrightarrow> r (tenant_id ?cls) \<noteq> Some T2"
    using hit [OF that(1)] that(2) qs_rows_subset [of table base_qs]
    by (auto simp: filter_empty_conv)
  from code scoped none show ?thesis by simp
qed

text \<open>
  Witness for C2. An order loaded with tenant value 1, which is what its row stores:
  saved under the context 2 the update writes no row; saved under the context 1 it
  writes the row.
\<close>

theorem do_update_scoped_by_current_tenant_witness:
  "truthy (PyInt 2) \<and> \<not> isinstance_list (PyInt 2)
   \<and> attrs order_5 (tenant_id (inst_class order_5)) = Some (PyInt 1)
   \<and> do_update (utils_under (PyInt 2)) (orm_do_update order_table) order_5 all_orders
        ''default'' (PyInt 5) [(''total'', PyInt 9)] PyNone False = ([], [])
   \<and> do_update (utils_under (PyInt 1)) (orm_do_update order_table) order_5 all_orders
        ''default'' (PyInt 5) [(''total'', PyInt 9)] PyNone False = (order_table, [])"
  using do_update_scoped_by_current_tenant
    [of "utils_under (PyInt 2)" "orm_do_update order_table" order_5 all_orders
        "''default''" "PyInt 5" "[(''total'', PyInt 9)]" PyNone False order_5 "PyInt 2" order_table]
  by (simp add: utils_under_def order_5_def order_model_def order_table_def all_orders_def
      do_update_def orm_do_update_def qs_rows_def qs_filter_def)

section \<open>Creation\<close>

text \<open>
  C3. \<open>save\<close> of an instance with no primary key yet: when the current tenant value
  is set (truthy) and is not a list and the instance's tenant attribute, the one named
  by the \<open>tenant_id\<close> of its class, is unassigned, the instance the parent's
  \<open>save\<close> receives is the given one with that attribute set to the current tenant
  value, and its \<open>tenant_value\<close> is that value; when the current tenant value is a
  list, the parent's \<open>save\<close> receives the instance unchanged, the tenant attribute
  as it was.
\<close>

theorem save_stamps_scalar_tenant:
  "(\<not> truthy (pk self) \<and> truthy (get_current_tenant_value U)
      \<and> \<not> isinstance_list (get_current_tenant_value U)
      \<and> attrs self (tenant_id (inst_class self)) = None \<longrightarrow>
        save U super_save self =
          super_save (self\<lparr>attrs :=
            (attrs self)(tenant_id (inst_class self) \<mapsto> get_current_tenant_value U)\<rparr>)
        \<and> attrs (save U (\<lambda>i. i) self) (tenant_id (inst_class self)) =
            Some (get_current_tenant_value U)
        \<and> tenant_value (save U (\<lambda>i. i) self) = get_current_tenant_value U)
   \<and> (isinstance_list (get_current_tenant_value U) \<longrightarrow>
        save U super_save self = super_save self
        \<and> attrs (save U (\<lambda>i. i) self) (tenant_id (inst_class self)) =
            attrs self (tenant_id (inst_class self)))"
  by (simp add: save_def setattr_def tenant_value_def tenant_field_def)

text \<open>
  Witness for C3. A new order, whose class names \<open>store_id\<close> as its tenant
  attribute: under the scalar context 7 its \<open>store_id\<close> is stamped with 7 and no
  other attribute is touched; under the list context [7, 8] its \<open>store_id\<close> stays
  unassigned.
\<close>

theorem save_stamps_scalar_tenant_witness:
  "\<not> truthy (pk new_order) \<and> truthy (PyInt 7) \<and> \<not> isinstance_list (PyInt 7)
   \<and> attrs new_order ''store_id'' = None
   \<and> attrs (save (utils_under (PyInt 7)) (\<lambda>i. i) new_order) ''store_id'' = Some (PyInt 7)
   \<and> attrs (save (utils_under (PyInt 7)) (\<lambda>i. i) new_order) [] = None
   \<and> save (utils_under (PyInt 7)) (\<lambda>i. i) new_order =
       \<lparr>inst_class = order_model, pk = PyNone, attrs = [''store_id'' \<mapsto> PyInt 7]\<rparr>
   \<and> isinstance_list (PyList [PyInt 7, PyInt 8])
   \<and> save (utils_under (PyList [PyInt 7, PyInt 8])) (\<lambda>i. i) new_order = new_order
   \<and> attrs (save (utils_under (PyList [PyInt 7, PyInt 8])) (\<lambda>i. i) new_order) ''store_id'' = None"
  using save_stamps_scalar_tenant [of new_order "utils_under (PyInt 7)" "\<lambda>i. i"]
    save_stamps_scalar_tenant [of new_order "utils_under (PyList [PyInt 7, PyInt 8])" "\<lambda>i. i"]
  by (simp add: utils_under_def new_order_def order_model_def)

text \<open>
  The stamping does not look at the tenant attribute: a value the caller assigned before
  \<open>save\<close> is replaced by the current tenant value as well.
\<close>

lemma save_replaces_assigned_tenant:
  "\<not> truthy (pk self) \<Longrightarrow> truthy (get_current_tenant_value U)
     \<Longrightarrow> \<not> isinstance_list (get_current_tenant_value U)
     \<Longrightarrow> attrs (save U (\<lambda>i. i) (self\<lparr>attrs := (attrs self)(tenant_id (inst_class self) \<mapsto> v)\<rparr>))
           (tenant_id (inst_class self)) = Some (get_current_tenant_value U)"
  by (simp add: save_def setattr_def tenant_field_def)

section \<open>Instance traversal\<close>




section \<open>Subquery restriction\<close>

text \<open>
  C5, as the code has it. \<open>get_extra_restriction\<close> returns \<open>None\<close> when no current
  tenant value is set (a falsy \<open>get_current_tenant_value()\<close>). Otherwise it returns the
  node \<open>where_class()\<close> with one lookup added under \<open>AND\<close>: the exact match of the
  column \<open>related_alias\<close>.(tenant field of \<open>self.model\<close>, the declaring type A) with
  the current tenant value; on an empty \<open>AND\<close> node that is a node with this single
  child. The tenant field of the target type B is not consulted.
\<close>

theorem get_extra_restriction_on_declaring_tenant_field:
  "(\<not> truthy (get_current_tenant_value U) \<longrightarrow>
      get_extra_restriction U self where_class alias related_alias = None)
   \<and> (truthy (get_current_tenant_value U) \<longrightarrow>
      get_extra_restriction U self where_class alias related_alias =
        Some (where_add where_class
                (Lookup ''exact'' (Col related_alias (get_tenant_field U (fk_model self)))
                   (get_current_tenant_value U)) ''AND'')
      \<and> get_extra_restriction U self empty_and_node alias related_alias =
        Some (WhereNode ''AND''
                [Leaf (Lookup ''exact'' (Col related_alias (get_tenant_field U (fk_model self)))
                   (get_current_tenant_value U))]))"
  by (simp add: get_extra_restriction_def get_col_def empty_and_node_def)

text \<open>
  Witness for C5. The relation \<open>Order.customer\<close> without a tenant value, and under
  the value 7.
\<close>

theorem get_extra_restriction_on_declaring_tenant_field_witness:
  "\<not> truthy (get_current_tenant_value (utils_under PyNone))
   \<and> get_extra_restriction (utils_under PyNone) order_customer empty_and_node ''T2'' ''T1'' = None
   \<and> truthy (get_current_tenant_value (utils_under (PyInt 7)))
   \<and> get_extra_restriction (utils_under (PyInt 7)) order_customer empty_and_node ''T2'' ''T1'' =
       Some (WhereNode ''AND''
         [Leaf (Lookup ''exact''
            (Col ''T1'' \<lparr>field_owner = ''Order'', field_column = ''store_id''\<rparr>) (PyInt 7))])"
  using get_extra_restriction_on_declaring_tenant_field
      [of "utils_under PyNone" order_customer empty_and_node "''T2''" "''T1''"]
    get_extra_restriction_on_declaring_tenant_field
      [of "utils_under (PyInt 7)" order_customer empty_and_node "''T2''" "''T1''"]
  by (simp add: utils_under_def order_customer_def order_model_def empty_and_node_def)

text \<open>
  Counterexample for C5. The claim as stated names the tenant column of the target
  type B. For
  \<open>Order.customer\<close>, where \<open>Order\<close> declares \<open>store_id\<close> and \<open>Customer\<close>
  declares \<open>account_id\<close>, the condition returned is not the one on B's tenant field,
  under either alias.
\<close>

theorem get_extra_restriction_target_column_counterexample:
  "truthy (get_current_tenant_value (utils_under (PyInt 7)))
   \<and> get_extra_restriction (utils_under (PyInt 7)) order_customer empty_and_node ''T2'' ''T1'' \<noteq>
       Some (WhereNode ''AND''
         [Leaf (Lookup ''exact''
            (Col ''T2'' (get_tenant_field (utils_under (PyInt 7)) (related_model order_customer)))
            (PyInt 7))])
   \<and> get_extra_restriction (utils_under (PyInt 7)) order_customer empty_and_node ''T2'' ''T1'' \<noteq>
       Some (WhereNode ''AND''
         [Leaf (Lookup ''exact''
            (Col ''T1'' (get_tenant_field (utils_under (PyInt 7)) (related_model order_customer)))
            (PyInt 7))])"
  by (simp add: get_extra_restriction_def get_col_def empty_and_node_def utils_under_def
      order_customer_def order_model_def customer_model_def)

section \<open>Collection reads\<close>

text \<open>
  C6. \<open>get_queryset\<close> returns the base queryset intersected with the tenant filter of
  the manager's entity type when a current tenant is set (a truthy
  \<open>get_current_tenant()\<close>): its rows are the base queryset's rows that satisfy every
  lookup of the filter. With no current tenant set it returns the base queryset
  unchanged.
\<close>

theorem get_queryset_filters_when_tenant_set:
  "(truthy (get_current_tenant U) \<longrightarrow>
      fst (get_queryset U self) =
        qs_filter (get_tenant_filters U (ModelClass (mgr_model self)))
          (queryset_class self (mgr_model self))
      \<and> qs_rows table (fst (get_queryset U self)) =
        filter (\<lambda>r. list_all (lookup_holds r) (get_tenant_filters U (ModelClass (mgr_model self))))
          (qs_rows table (queryset_class self (mgr_model self))))
   \<and> (\<not> truthy (get_current_tenant U) \<longrightarrow>
      fst (get_queryset U self) = queryset_class self (mgr_model self))"
  by (simp add: get_queryset_def qs_rows_qs_filter)

text \<open>
  Witness for C6. Orders read under the tenant that owns the stored row, under another
  tenant, and with no tenant.
\<close>

theorem get_queryset_filters_when_tenant_set_witness:
  "truthy (get_current_tenant (utils_under (PyInt 1)))
   \<and> fst (get_queryset (utils_under (PyInt 1)) order_manager) =
       \<lparr>qs_model = order_model, qs_where = [(''store_id'', PyInt 1)]\<rparr>
   \<and> qs_rows order_table (fst (get_queryset (utils_under (PyInt 1)) order_manager)) = order_table
   \<and> truthy (get_current_tenant (utils_under (PyInt 2)))
   \<and> qs_rows order_table (fst (get_queryset (utils_under (PyInt 2)) order_manager)) = []
   \<and> \<not> truthy (get_current_tenant (utils_under PyNone))
   \<and> fst (get_queryset (utils_under PyNone) order_manager) = all_orders"
  using get_queryset_filters_when_tenant_set [of "utils_under (PyInt 1)" order_manager order_table]
    get_queryset_filters_when_tenant_set [of "utils_under (PyInt 2)" order_manager order_table]
    get_queryset_filters_when_tenant_set [of "utils_under PyNone" order_manager order_table]
  by (simp add: utils_under_def order_manager_def order_model_def order_table_def all_orders_def
      qs_rows_def qs_filter_def)

section \<open>Missing tenant context\<close>

text \<open>
  C7, as the code has it. With no current tenant set, \<open>get_queryset\<close> returns the
  unfiltered base queryset and logs nothing, and \<open>_do_update\<close> calls the parent's
  \<open>_do_update\<close> with the base queryset as it was given and logs one warning whose
  arguments are the name of the entity type and the instance. Neither has a failing
  branch.
\<close>

theorem no_tenant_read_and_update_proceed:
  "\<not> truthy (get_current_tenant U) \<longrightarrow>
     get_queryset U mgr = (queryset_class mgr (mgr_model mgr), [])
     \<and> do_update U super_do_update self base_qs using_db pk_val vals update_fields forced_update =
         (super_do_update base_qs using_db pk_val vals update_fields forced_update,
          [Warning update_without_tenant_msg [ArgStr (cls_name (inst_class self)), ArgObj self]])"
  by (simp add: get_queryset_def do_update_def)

text \<open>
  Witness for C7. A read and an update of orders with the context unset.
\<close>

theorem no_tenant_read_and_update_proceed_witness:
  "\<not> truthy (get_current_tenant (utils_under PyNone))
   \<and> get_queryset (utils_under PyNone) order_manager = (all_orders, [])
   \<and> do_update (utils_under PyNone) (orm_do_update order_table) order_5 all_orders
        ''default'' (PyInt 5) [(''total'', PyInt 9)] PyNone False =
      (order_table, [Warning update_without_tenant_msg [ArgStr ''Order'', ArgObj order_5]])"
  using no_tenant_read_and_update_proceed
    [of "utils_under PyNone" order_manager "orm_do_update order_table" order_5 all_orders
        "''default''" "PyInt 5" "[(''total'', PyInt 9)]" PyNone False]
  by (simp add: utils_under_def order_manager_def all_orders_def order_5_def order_model_def
      order_table_def orm_do_update_def qs_rows_def qs_filter_def)

text \<open>
  Counterexample for C7. The claim as stated has the read emit a warning too.
  \<open>get_queryset\<close> with the context unset logs no record.
\<close>

theorem get_queryset_logs_nothing_counterexample:
  "\<not> truthy (get_current_tenant (utils_under PyNone))
   \<and> snd (get_queryset (utils_under PyNone) order_manager) = []"
  by (simp add: get_queryset_def utils_under_def)

section \<open>Installing the DELETE-compiler wrapper\<close>

lemma init_fresh_process:
  "snd (TenantModelMixin_init fresh_process super_init args) =
     \<lparr>DeleteQuery_get_compiler = WrappedGetCompiler BaseGetCompiler,
      Collector_related_objects = TenantRelatedObjects\<rparr>"
  by (simp add: TenantModelMixin_init_def fresh_process_def wrap_get_compiler_def)

lemma init_patched_process:
  "hasattr_sign (DeleteQuery_get_compiler p) \<Longrightarrow>
     snd (TenantModelMixin_init p super_init args) = p"
  by (simp add: TenantModelMixin_init_def)

lemma init_sets_sign:
  "hasattr_sign (DeleteQuery_get_compiler (snd (TenantModelMixin_init p super_init args)))"
  by (simp add: TenantModelMixin_init_def wrap_get_compiler_def)

lemma init_repeated:
  "((\<lambda>q. snd (TenantModelMixin_init q super_init args)) ^^ Suc n) fresh_process =
     snd (TenantModelMixin_init fresh_process super_init args)"
proof (induction n)
  case 0
  show ?case by simp
next
  case (Suc n)
  have "((\<lambda>q. snd (TenantModelMixin_init q super_init args)) ^^ Suc (Suc n)) fresh_process =
        snd (TenantModelMixin_init
               (((\<lambda>q. snd (TenantModelMixin_init q super_init args)) ^^ Suc n) fresh_process)
               super_init args)"
    by simp
  also have "\<dots> = snd (TenantModelMixin_init
                       (snd (TenantModelMixin_init fresh_process super_init args)) super_init args)"
    by (simp only: Suc.IH)
  also have "\<dots> = snd (TenantModelMixin_init fresh_process super_init args)"
    by (rule init_patched_process) (rule init_sets_sign)
  finally show ?case .
qed

text \<open>
  C8. Installing the DELETE-compiler wrapper is idempotent. Constructing a second
  tenant-scoped instance leaves the process state as the first construction left it; in
  a process that starts with the mapper's own \<open>get_compiler\<close>, any number of
  constructions leaves exactly one wrapper around it; and calling the installed
  function adds the tenant predicate to the DELETE once (or not at all when no tenant is
  current), never twice.
\<close>

theorem delete_compiler_wrapper_installed_once:
  "snd (TenantModelMixin_init (snd (TenantModelMixin_init p super_init args)) super_init' args') =
     snd (TenantModelMixin_init p super_init args)
   \<and> DeleteQuery_get_compiler
        (((\<lambda>q. snd (TenantModelMixin_init q super_init args)) ^^ Suc n) fresh_process) =
      WrappedGetCompiler BaseGetCompiler
   \<and> call_get_compiler U
        (DeleteQuery_get_compiler
           (((\<lambda>q. snd (TenantModelMixin_init q super_init args)) ^^ Suc n) fresh_process)) q =
      (if get_current_tenant U = PyNone then q
       else qs_filter (get_tenant_filters U (ModelClass (qs_model q))) q)"
proof -
  have "snd (TenantModelMixin_init (snd (TenantModelMixin_init p super_init args)) super_init' args') =
        snd (TenantModelMixin_init p super_init args)"
    by (rule init_patched_process) (rule init_sets_sign)
  moreover have "DeleteQuery_get_compiler
        (((\<lambda>q. snd (TenantModelMixin_init q super_init args)) ^^ Suc n) fresh_process) =
      WrappedGetCompiler BaseGetCompiler"
    by (simp only: init_repeated init_fresh_process) simp
  ultimately show ?thesis by simp
qed

text \<open>
  Three constructions in a fresh process, then a DELETE on orders compiled under the
  tenant 7: the WHERE clause holds the tenant predicate once.
\<close>

lemma delete_after_three_constructions_example:
  "call_get_compiler (utils_under (PyInt 7))
     (DeleteQuery_get_compiler
        (snd (TenantModelMixin_init
           (snd (TenantModelMixin_init
              (snd (TenantModelMixin_init fresh_process (\<lambda>a. new_order) ()))
              (\<lambda>a. new_order) ()))
           (\<lambda>a. new_order) ())))
     all_orders =
   \<lparr>qs_model = order_model, qs_where = [(''store_id'', PyInt 7)]\<rparr>"
  by (simp add: TenantModelMixin_init_def fresh_process_def wrap_get_compiler_def utils_under_def
      all_orders_def order_model_def qs_filter_def)

section \<open>Field checks and constructors\<close>

text \<open>
  C9. \<open>_check_unique_target\<close> of a TenantForeignKey returns the empty list of
  errors, whether or not the referenced column is declared unique.
\<close>

theorem check_unique_target_suppressed:
  "check_unique_target self = []
   \<and> check_unique_target (self\<lparr>target_unique := False\<rparr>) = []
   \<and> check_unique_target (self\<lparr>target_unique := True\<rparr>) = []"
  by (simp add: check_unique_target_def)

text \<open>
  C10. \<open>TenantOneToOneField.__init__\<close> overwrites the caller's \<open>unique\<close> with
  \<open>False\<close> in the keyword arguments it passes on. The next constructor in the method
  resolution order is \<open>models.OneToOneField.__init__\<close>, which sets it to \<open>True\<close>
  again, so the field that results has \<open>unique == True\<close> whatever the caller passed.
\<close>

theorem new_TenantOneToOneField_is_unique:
  "TenantOneToOneField_init super_init args kw = super_init args (kw(''unique'' \<mapsto> PyBool False))
   \<and> field_unique (new_TenantOneToOneField args kw) = PyBool True
   \<and> field_unique (new_TenantOneToOneField args kw) \<noteq> PyBool False"
  by (simp add: new_TenantOneToOneField_def TenantOneToOneField_init_def orm_OneToOneField_init_def
      TenantIDFieldMixin_init_def kwargs_pop_def orm_Field_init_def field_unique_def)

end
